theory Spec2Isabelle
  imports Main "HOL-Library.Monad_Syntax"
begin

section \<open>Data model (shared schema)\<close>

text \<open>
  The three tables of the shared schema. A nullable column is an \<open>option\<close>; a column
  declared \<open>notNull\<close> is not. Timestamps are milliseconds. The columns of \<open>users\<close> that no
  operation below reads (names, profile image, department, timestamps) are left out.
  Record fields share one name space, so the primary keys are \<open>u_id\<close>, \<open>t_id\<close> and
  \<open>c_id\<close>, and the comment's creation time is \<open>c_createdAt\<close>.
\<close>

type_synonym timestamp = int

datatype priority = Low | Medium | High | Critical

datatype status = Open | InProgress | Resolved | Closed

datatype category = Hardware | Software | Network | Email | Access | Other

record user =
  u_id :: string
  email :: "string option"
  role :: "string option"

record ticket =
  t_id :: int
  ticketNumber :: string
  subject :: string
  description :: string
  priority :: priority
  status :: "status option"
  category :: category
  department :: "string option"
  createdBy :: string
  assignedTo :: "string option"
  createdAt :: "timestamp option"
  updatedAt :: "timestamp option"
  resolvedAt :: "timestamp option"
  closedAt :: "timestamp option"

record comment =
  c_id :: int
  ticketId :: int
  userId :: string
  content :: string
  isInternal :: "bool option"
  c_createdAt :: "timestamp option"

text \<open>
  The database: the rows of each table and the last value handed out by the two
  \<open>serial\<close> sequences.
\<close>

record db =
  users :: "user list"
  tickets :: "ticket list"
  comments :: "comment list"
  tickets_id_seq :: int
  comments_id_seq :: int
  comments_ticket_id_seq :: int

text \<open>
  The id columns are \<open>serial\<close>, 32-bit integers: a statement that is given a number outside
  that range throws (out of range for type integer).
\<close>

definition int4 :: "int \<Rightarrow> bool" where
  "int4 n = (- 2147483648 \<le> n \<and> n \<le> 2147483647)"

section \<open>Request bodies and the zod schemas\<close>

text \<open>
  A request body is a JSON object: a map from keys to values. Numbers are integers here;
  \<open>JOther\<close> stands for arrays and nested objects, which no schema below accepts.
\<close>

datatype json = JNull | JBool bool | JNum int | JStr string | JOther

type_synonym body = "string \<rightharpoonup> json"

text \<open>
  A key of a validated object that may be absent or null: \<open>Undefined\<close> (the key is
  absent), \<open>Null\<close> or a value. Each parser returns \<open>None\<close> where zod reports an issue.
\<close>

datatype 'a field = Undefined | Null | Given 'a

definition z_string :: "json option \<Rightarrow> string option" where
  "z_string j = (case j of Some (JStr s) \<Rightarrow> Some s | _ \<Rightarrow> None)"

definition z_number :: "json option \<Rightarrow> int option" where
  "z_number j = (case j of Some (JNum n) \<Rightarrow> Some n | _ \<Rightarrow> None)"

definition z_int4 :: "json option \<Rightarrow> int option" where
  "z_int4 j = (case j of Some (JNum n) \<Rightarrow> if int4 n then Some n else None | _ \<Rightarrow> None)"

definition z_boolean :: "json option \<Rightarrow> bool option" where
  "z_boolean j = (case j of Some (JBool b) \<Rightarrow> Some b | _ \<Rightarrow> None)"

definition z_enum :: "(string \<times> 'a) list \<Rightarrow> json option \<Rightarrow> 'a option" where
  "z_enum vs j = (case j of Some (JStr s) \<Rightarrow> map_of vs s | _ \<Rightarrow> None)"

definition z_optional :: "(json option \<Rightarrow> 'a option) \<Rightarrow> json option \<Rightarrow> 'a option option" where
  "z_optional p j = (case j of None \<Rightarrow> Some None | Some _ \<Rightarrow> map_option Some (p j))"

definition z_nullish :: "(json option \<Rightarrow> 'a option) \<Rightarrow> json option \<Rightarrow> 'a field option" where
  "z_nullish p j =
     (case j of None \<Rightarrow> Some Undefined | Some JNull \<Rightarrow> Some Null
      | Some _ \<Rightarrow> map_option Given (p j))"

definition ticketPriorityEnum :: "(string \<times> priority) list" where
  "ticketPriorityEnum =
     [(''low'', Low), (''medium'', Medium), (''high'', High), (''critical'', Critical)]"

definition ticketStatusEnum :: "(string \<times> status) list" where
  "ticketStatusEnum =
     [(''open'', Open), (''in_progress'', InProgress), (''resolved'', Resolved),
      (''closed'', Closed)]"

definition ticketCategoryEnum :: "(string \<times> category) list" where
  "ticketCategoryEnum =
     [(''hardware'', Hardware), (''software'', Software), (''network'', Network),
      (''email'', Email), (''access'', Access), (''other'', Other)]"

text \<open>
  \<open>insertTicketSchema\<close>: the insert schema of \<open>tickets\<close> without id, ticketNumber and the
  four timestamps. A \<open>notNull\<close> column without default is required; the nullable columns
  (status, department, assignedTo) may be absent or null. Unknown keys are dropped.
\<close>

record insert_ticket =
  i_subject :: string
  i_description :: string
  i_priority :: priority
  i_status :: "status field"
  i_category :: category
  i_department :: "string field"
  i_createdBy :: string
  i_assignedTo :: "string field"

definition insertTicketSchema :: "body \<Rightarrow> insert_ticket option" where
  "insertTicketSchema b = do {
     s \<leftarrow> z_string (b ''subject'');
     de \<leftarrow> z_string (b ''description'');
     p \<leftarrow> z_enum ticketPriorityEnum (b ''priority'');
     st \<leftarrow> z_nullish (z_enum ticketStatusEnum) (b ''status'');
     c \<leftarrow> z_enum ticketCategoryEnum (b ''category'');
     dp \<leftarrow> z_nullish z_string (b ''department'');
     cb \<leftarrow> z_string (b ''createdBy'');
     a \<leftarrow> z_nullish z_string (b ''assignedTo'');
     Some \<lparr> i_subject = s, i_description = de, i_priority = p, i_status = st,
            i_category = c, i_department = dp, i_createdBy = cb, i_assignedTo = a \<rparr>
   }"

text \<open>
  \<open>Partial<Ticket>\<close>, the argument of \<open>storage.updateTicket\<close>: the keys that the PATCH
  route can put there. \<open>updateTicketSchema\<close> is \<open>insertTicketSchema.partial()\<close> extended
  with a required numeric \<open>id\<close>: every other key is optional, and it never yields
  \<open>resolvedAt\<close> or \<open>closedAt\<close>, which the insert schema omits.
\<close>

record partial_ticket =
  p_id :: "int option"
  p_subject :: "string option"
  p_description :: "string option"
  p_priority :: "priority option"
  p_status :: "status field"
  p_category :: "category option"
  p_department :: "string field"
  p_createdBy :: "string option"
  p_assignedTo :: "string field"
  p_resolvedAt :: "timestamp option"
  p_closedAt :: "timestamp option"

definition updateTicketSchema :: "body \<Rightarrow> partial_ticket option" where
  "updateTicketSchema b = do {
     i \<leftarrow> z_number (b ''id'');
     s \<leftarrow> z_optional z_string (b ''subject'');
     de \<leftarrow> z_optional z_string (b ''description'');
     p \<leftarrow> z_optional (z_enum ticketPriorityEnum) (b ''priority'');
     st \<leftarrow> z_nullish (z_enum ticketStatusEnum) (b ''status'');
     c \<leftarrow> z_optional (z_enum ticketCategoryEnum) (b ''category'');
     dp \<leftarrow> z_nullish z_string (b ''department'');
     cb \<leftarrow> z_optional z_string (b ''createdBy'');
     a \<leftarrow> z_nullish z_string (b ''assignedTo'');
     Some \<lparr> p_id = Some i, p_subject = s, p_description = de, p_priority = p,
            p_status = st, p_category = c, p_department = dp, p_createdBy = cb,
            p_assignedTo = a, p_resolvedAt = None, p_closedAt = None \<rparr>
   }"

text \<open>
  \<open>insertCommentSchema\<close>: the insert schema of \<open>comments\<close> without id and createdAt.
  \<open>content\<close> is a required string, with no length check; \<open>ticketId\<close> is a serial column and
  so optional, and an integer in the 32-bit range when present; \<open>isInternal\<close> is nullable
  with a default.
\<close>

record insert_comment =
  ic_ticketId :: "int option"
  ic_userId :: string
  ic_content :: string
  ic_isInternal :: "bool field"

definition insertCommentSchema :: "body \<Rightarrow> insert_comment option" where
  "insertCommentSchema b = do {
     t \<leftarrow> z_optional z_int4 (b ''ticketId'');
     u \<leftarrow> z_string (b ''userId'');
     c \<leftarrow> z_string (b ''content'');
     i \<leftarrow> z_nullish z_boolean (b ''isInternal'');
     Some \<lparr> ic_ticketId = t, ic_userId = u, ic_content = c, ic_isInternal = i \<rparr>
   }"

section \<open>SQL aggregates and getTicketStats\<close>

text \<open>
  \<open>eq(column, value)\<close> is SQL equality: comparing NULL gives NULL. \<open>count()\<close> counts rows;
  \<open>count(expression)\<close> is SQL \<open>count(expression)\<close>, the number of rows where the expression
  is not NULL.
\<close>

definition sql_eq :: "'a option \<Rightarrow> 'a \<Rightarrow> bool option" where
  "sql_eq col v = (case col of None \<Rightarrow> None | Some x \<Rightarrow> Some (x = v))"

definition count_rows :: "'r list \<Rightarrow> nat" where
  "count_rows rs = length rs"

definition count_expr :: "('r \<Rightarrow> 'b option) \<Rightarrow> 'r list \<Rightarrow> nat" where
  "count_expr e rs = length (filter (\<lambda>r. e r \<noteq> None) rs)"

record stats =
  total :: nat
  open_count :: nat
  inProgress :: nat
  resolved :: nat
  closed :: nat

definition getTicketStats :: "db \<Rightarrow> stats" where
  "getTicketStats d =
     \<lparr> total = count_rows (tickets d),
       open_count = count_expr (\<lambda>t. sql_eq (status t) Open) (tickets d),
       inProgress = count_expr (\<lambda>t. sql_eq (status t) InProgress) (tickets d),
       resolved = count_expr (\<lambda>t. sql_eq (status t) Resolved) (tickets d),
       closed = count_expr (\<lambda>t. sql_eq (status t) Closed) (tickets d) \<rparr>"

section \<open>Storage (DatabaseStorage)\<close>

text \<open>
  A reading method takes the database and returns its result; a writing method returns
  its result with the database after the call. A statement that violates a constraint of the schema (primary key, the unique
  \<open>ticket_number\<close>, a foreign key) throws; the thrown error is \<open>Inl DbError\<close>. The clock
  (\<open>new Date()\<close>, \<open>defaultNow()\<close>) is the argument \<open>now\<close>.
\<close>

datatype error = DbError | TypeError

definition getUser :: "db \<Rightarrow> string \<Rightarrow> user option" where
  "getUser d i = find (\<lambda>u. u_id u = i) (users d)"

definition user_exists :: "db \<Rightarrow> string \<Rightarrow> bool" where
  "user_exists d i = list_ex (\<lambda>u. u_id u = i) (users d)"

definition leftJoin :: "'a list \<Rightarrow> 'b list \<Rightarrow> ('a \<Rightarrow> 'b \<Rightarrow> bool) \<Rightarrow> ('a \<times> 'b option) list" where
  "leftJoin xs ys on =
     concat (map (\<lambda>x. case filter (on x) ys of
                          [] \<Rightarrow> [(x, None)]
                        | m # ms \<Rightarrow> map (\<lambda>y. (x, Some y)) (m # ms)) xs)"

text \<open>
  \<open>orderBy(desc(column))\<close>: descending, NULL first. SQL leaves the order of equal keys
  open; the model keeps them in table order.
\<close>

definition before_desc :: "timestamp option \<Rightarrow> timestamp option \<Rightarrow> bool" where
  "before_desc a b =
     (case a of None \<Rightarrow> True
      | Some x \<Rightarrow> (case b of None \<Rightarrow> False | Some y \<Rightarrow> y \<le> x))"

fun insert_desc :: "('r \<Rightarrow> timestamp option) \<Rightarrow> 'r \<Rightarrow> 'r list \<Rightarrow> 'r list" where
  "insert_desc k r [] = [r]"
| "insert_desc k r (x # xs) =
     (if before_desc (k r) (k x) then r # x # xs else x # insert_desc k r xs)"

definition orderByDesc :: "('r \<Rightarrow> timestamp option) \<Rightarrow> 'r list \<Rightarrow> 'r list" where
  "orderByDesc k rs = foldr (insert_desc k) rs []"

record ticket_with_users =
  tk :: ticket
  creator :: "user option"
  assignee :: "user option"

record comment_with_user =
  cm :: comment
  cm_user :: "user option"

record ticket_details = ticket_with_users +
  tk_comments :: "comment_with_user list"

text \<open>The select over tickets with its two left joins, which four methods share.\<close>

definition ticket_rows :: "db \<Rightarrow> ((ticket \<times> user option) \<times> user option) list" where
  "ticket_rows d =
     leftJoin (leftJoin (tickets d) (users d) (\<lambda>t u. createdBy t = u_id u))
       (users d) (\<lambda>r u. assignedTo (fst r) = Some (u_id u))"

definition row_ticket :: "(ticket \<times> user option) \<times> user option \<Rightarrow> ticket" where
  "row_ticket r = fst (fst r)"

definition to_ticket_with_users ::
  "(ticket \<times> user option) \<times> user option \<Rightarrow> ticket_with_users" where
  "to_ticket_with_users r = \<lparr> tk = fst (fst r), creator = snd (fst r), assignee = snd r \<rparr>"

definition getAllTickets :: "db \<Rightarrow> ticket_with_users list" where
  "getAllTickets d =
     map to_ticket_with_users (orderByDesc (\<lambda>r. createdAt (row_ticket r)) (ticket_rows d))"

definition getTicketsByUser :: "db \<Rightarrow> string \<Rightarrow> ticket_with_users list" where
  "getTicketsByUser d uid =
     map to_ticket_with_users
       (orderByDesc (\<lambda>r. createdAt (row_ticket r))
          (filter (\<lambda>r. createdBy (row_ticket r) = uid) (ticket_rows d)))"

text \<open>
  The comments of a ticket with their authors, newest first: the query that
  \<open>getTicketById\<close> and \<open>getCommentsByTicket\<close> both run, for an id in range.
\<close>

definition ticketComments :: "db \<Rightarrow> int \<Rightarrow> comment_with_user list" where
  "ticketComments d tid =
     map (\<lambda>r. \<lparr> cm = fst r, cm_user = snd r \<rparr>)
       (orderByDesc (\<lambda>r. c_createdAt (fst r))
          (filter (\<lambda>r. ticketId (fst r) = tid)
             (leftJoin (comments d) (users d) (\<lambda>c u. userId c = u_id u))))"

definition getCommentsByTicket :: "db \<Rightarrow> int \<Rightarrow> error + comment_with_user list" where
  "getCommentsByTicket d tid = (if int4 tid then Inr (ticketComments d tid) else Inl DbError)"

definition getTicketById :: "db \<Rightarrow> int \<Rightarrow> error + ticket_details option" where
  "getTicketById d i =
     (if int4 i
      then Inr (case filter (\<lambda>r. t_id (row_ticket r) = i) (ticket_rows d) of
                  [] \<Rightarrow> None
                | r # _ \<Rightarrow> Some \<lparr> tk = fst (fst r), creator = snd (fst r),
                                  assignee = snd r, tk_comments = ticketComments d i \<rparr>)
      else Inl DbError)"

subsection \<open>createTicket\<close>

definition digit_char :: "nat \<Rightarrow> char" where
  "digit_char n = ''0123456789'' ! n"

fun string_of_nat :: "nat \<Rightarrow> string" where
  "string_of_nat n =
     (if n < 10 then [digit_char n] else string_of_nat (n div 10) @ [digit_char (n mod 10)])"

declare string_of_nat.simps [simp del]

definition padStart :: "nat \<Rightarrow> char \<Rightarrow> string \<Rightarrow> string" where
  "padStart w c s = replicate (w - length s) c @ s"

definition field_to_column :: "'a field \<Rightarrow> 'a option \<Rightarrow> 'a option" where
  "field_to_column f dflt = (case f of Undefined \<Rightarrow> dflt | Null \<Rightarrow> None | Given x \<Rightarrow> Some x)"

definition createTicket :: "db \<Rightarrow> timestamp \<Rightarrow> insert_ticket \<Rightarrow> (error + ticket) \<times> db" where
  "createTicket d now t =
     (let ticketCount = count_rows (tickets d);
          number = ''TKT-'' @ padStart 4 CHR ''0'' (string_of_nat (ticketCount + 1));
          new_id = tickets_id_seq d + 1;
          d1 = d\<lparr> tickets_id_seq := new_id \<rparr>;
          newTicket = \<lparr> t_id = new_id, ticketNumber = number, subject = i_subject t,
            description = i_description t, priority = i_priority t,
            status = field_to_column (i_status t) (Some Open), category = i_category t,
            department = field_to_column (i_department t) None, createdBy = i_createdBy t,
            assignedTo = field_to_column (i_assignedTo t) None, createdAt = Some now,
            updatedAt = Some now, resolvedAt = None, closedAt = None \<rparr>
      in if list_ex (\<lambda>x. t_id x = new_id) (tickets d)
            \<or> list_ex (\<lambda>x. ticketNumber x = number) (tickets d)
            \<or> (case assignedTo newTicket of None \<Rightarrow> False | Some a \<Rightarrow> \<not> user_exists d a)
            \<or> \<not> (int4 new_id \<and> user_exists d (createdBy newTicket))
         then (Inl DbError, d1)
         else (Inr newTicket, d1\<lparr> tickets := tickets d @ [newTicket] \<rparr>))"

subsection \<open>updateTicket\<close>

definition set_col :: "'a option \<Rightarrow> 'a \<Rightarrow> 'a" where
  "set_col v old = (case v of None \<Rightarrow> old | Some x \<Rightarrow> x)"

definition set_stamp :: "timestamp option \<Rightarrow> timestamp option \<Rightarrow> timestamp option" where
  "set_stamp v old = (case v of None \<Rightarrow> old | Some x \<Rightarrow> Some x)"

definition apply_set :: "partial_ticket \<Rightarrow> timestamp \<Rightarrow> ticket \<Rightarrow> ticket" where
  "apply_set u now t =
     t\<lparr> t_id := set_col (p_id u) (t_id t),
        subject := set_col (p_subject u) (subject t),
        description := set_col (p_description u) (description t),
        priority := set_col (p_priority u) (priority t),
        status := field_to_column (p_status u) (status t),
        category := set_col (p_category u) (category t),
        department := field_to_column (p_department u) (department t),
        createdBy := set_col (p_createdBy u) (createdBy t),
        assignedTo := field_to_column (p_assignedTo u) (assignedTo t),
        resolvedAt := set_stamp (p_resolvedAt u) (resolvedAt t),
        closedAt := set_stamp (p_closedAt u) (closedAt t),
        updatedAt := Some now \<rparr>"

text \<open>
  The UPDATE throws when the id it looks for or the id it sets is outside the 32-bit
  range, and when it would move the row's id onto another row's id or away from comments
  that reference it, or point \<open>created_by\<close> or \<open>assigned_to\<close> at no user. It returns the
  first updated row, \<open>undefined\<close> (\<open>None\<close>) when no row has the id.
\<close>

definition update_violation :: "db \<Rightarrow> int \<Rightarrow> partial_ticket \<Rightarrow> bool" where
  "update_violation d i u =
     (if int4 i \<and> int4 (set_col (p_id u) i)
      then list_ex (\<lambda>t. t_id t = i) (tickets d)
        \<and> ((case p_id u of None \<Rightarrow> False
             | Some j \<Rightarrow> j \<noteq> i \<and> (list_ex (\<lambda>t. t_id t = j) (tickets d)
                                  \<or> list_ex (\<lambda>c. ticketId c = i) (comments d)))
           \<or> (case p_createdBy u of None \<Rightarrow> False | Some c \<Rightarrow> \<not> user_exists d c)
           \<or> (case p_assignedTo u of Given a \<Rightarrow> \<not> user_exists d a | _ \<Rightarrow> False))
      else True)"

definition updateTicket ::
  "db \<Rightarrow> timestamp \<Rightarrow> int \<Rightarrow> partial_ticket \<Rightarrow> (error + ticket option) \<times> db" where
  "updateTicket d now i u =
     (if update_violation d i u then (Inl DbError, d)
      else (Inr (case filter (\<lambda>t. t_id t = i) (tickets d) of
                   [] \<Rightarrow> None | t # _ \<Rightarrow> Some (apply_set u now t)),
            d\<lparr> tickets := map (\<lambda>t. if t_id t = i then apply_set u now t else t) (tickets d) \<rparr>))"

subsection \<open>deleteTicket and createComment\<close>

text \<open>
  \<open>comments.ticket_id\<close> references \<open>tickets.id\<close> with no \<open>onDelete\<close> action, so deleting a
  ticket that comments still reference throws and removes nothing; so does a DELETE for
  an id outside the 32-bit range.
\<close>

definition deleteTicket :: "db \<Rightarrow> int \<Rightarrow> (error + unit) \<times> db" where
  "deleteTicket d i =
     (if int4 i
      then (if list_ex (\<lambda>t. t_id t = i) (tickets d) \<and> list_ex (\<lambda>c. ticketId c = i) (comments d)
            then (Inl DbError, d)
            else (Inr (), d\<lparr> tickets := filter (\<lambda>t. t_id t \<noteq> i) (tickets d) \<rparr>))
      else (Inl DbError, d))"

definition createComment :: "db \<Rightarrow> timestamp \<Rightarrow> insert_comment \<Rightarrow> (error + comment) \<times> db" where
  "createComment d now c =
     (let new_id = comments_id_seq d + 1;
          tid = (case ic_ticketId c of None \<Rightarrow> comments_ticket_id_seq d + 1 | Some t \<Rightarrow> t);
          d1 = d\<lparr> comments_id_seq := new_id,
                  comments_ticket_id_seq :=
                    (case ic_ticketId c of None \<Rightarrow> tid | Some _ \<Rightarrow> comments_ticket_id_seq d) \<rparr>;
          newComment = \<lparr> c_id = new_id, ticketId = tid, userId = ic_userId c,
            content = ic_content c,
            isInternal = field_to_column (ic_isInternal c) (Some False),
            c_createdAt = Some now \<rparr>
      in if list_ex (\<lambda>x. c_id x = new_id) (comments d)
            \<or> \<not> (int4 new_id \<and> int4 tid \<and> list_ex (\<lambda>t. t_id t = tid) (tickets d)
                   \<and> user_exists d (ic_userId c))
         then (Inl DbError, d1)
         else (Inr newComment, d1\<lparr> comments := comments d @ [newComment] \<rparr>))"

section \<open>Mail (emailService)\<close>

text \<open>
  Each method hands at most one message to the transport; the result is the list of
  messages handed over. A transport failure is caught and logged inside the method and
  reaches no caller, so it is not part of the model. Reading a property of a creator that
  the join left null throws a \<open>TypeError\<close>.
\<close>

datatype mail_kind = TicketCreated | TicketClosed | TicketAssigned

record mail =
  kind :: mail_kind
  mail_to :: string
  mail_subject :: string

definition truthy :: "string option \<Rightarrow> bool" where
  "truthy s = (case s of None \<Rightarrow> False | Some x \<Rightarrow> x \<noteq> [])"

fun join_comma :: "string list \<Rightarrow> string" where
  "join_comma [] = []"
| "join_comma [x] = x"
| "join_comma (x # y # ys) = x @ '','' @ join_comma (y # ys)"

definition sendTicketCreatedNotification :: "ticket \<Rightarrow> string list \<Rightarrow> mail list" where
  "sendTicketCreatedNotification t adminEmails =
     [\<lparr> kind = TicketCreated, mail_to = join_comma adminEmails,
        mail_subject = ''New Ticket Created: '' @ subject t \<rparr>]"

definition sendTicketClosedNotification :: "ticket_details \<Rightarrow> error + mail list" where
  "sendTicketClosedNotification t =
     (case creator t of
        None \<Rightarrow> Inl TypeError
      | Some c \<Rightarrow>
          (case email c of
             None \<Rightarrow> Inr []
           | Some e \<Rightarrow>
               if e = [] then Inr []
               else Inr [\<lparr> kind = TicketClosed, mail_to = e,
                           mail_subject = ''Ticket Closed: '' @ subject (tk t) \<rparr>]))"

definition sendTicketAssignedNotification :: "ticket_details \<Rightarrow> user \<Rightarrow> error + mail list" where
  "sendTicketAssignedNotification t a =
     (case email a of
        None \<Rightarrow> Inr []
      | Some e \<Rightarrow>
          if e = [] then Inr []
          else (case creator t of
                  None \<Rightarrow> Inl TypeError
                | Some _ \<Rightarrow> Inr [\<lparr> kind = TicketAssigned, mail_to = e,
                                   mail_subject = ''Ticket Assigned: '' @ subject (tk t) \<rparr>]))"

section \<open>Routes\<close>

text \<open>
  A handler takes the database, the clock, the authenticated user id
  (\<open>req.user.claims.sub\<close>), the parsed \<open>:id\<close> and the body, and returns the response, the
  database afterwards and the mail sent. Every exception ends in the handler's \<open>catch\<close>:
  a \<open>ZodError\<close> is status 400, anything else status 500. The \<open>:id\<close> of the path is the
  integer that \<open>parseInt\<close> read, of any size: a path whose id \<open>parseInt\<close> cannot read is
  outside the model, and so is a database that cannot be reached.
\<close>

datatype 'a response =
  Status200 'a | Status201 'a | Status204 | Status400 | Status403 | Status404 | Status500

record 'a outcome =
  response :: "'a response"
  store :: db
  sent :: "mail list"

definition isAdmin :: "user option \<Rightarrow> bool" where
  "isAdmin u = (case u of None \<Rightarrow> False | Some x \<Rightarrow> role x = Some ''admin'')"

text \<open>\<open>getTeamMembers\<close> orders by first name, a column left out here: table order.\<close>

definition getTeamMembers :: "db \<Rightarrow> user list" where
  "getTeamMembers d = users d"

definition get_api_tickets :: "db \<Rightarrow> string \<Rightarrow> ticket_with_users list response" where
  "get_api_tickets d uid =
     (let user = getUser d uid
      in Status200 (if isAdmin user then getAllTickets d else getTicketsByUser d uid))"

definition get_api_tickets_id :: "db \<Rightarrow> string \<Rightarrow> int \<Rightarrow> ticket_details response" where
  "get_api_tickets_id d uid tid =
     (let user = getUser d uid
      in case getTicketById d tid of
           Inl e \<Rightarrow> Status500
         | Inr None \<Rightarrow> Status404
         | Inr (Some t) \<Rightarrow>
             if \<not> isAdmin user \<and> createdBy (tk t) \<noteq> uid \<and> assignedTo (tk t) \<noteq> Some uid
             then Status403
             else Status200 t)"

definition post_api_tickets :: "db \<Rightarrow> timestamp \<Rightarrow> string \<Rightarrow> body \<Rightarrow> ticket outcome" where
  "post_api_tickets d now uid b =
     (case insertTicketSchema (b(''createdBy'' \<mapsto> JStr uid)) of
        None \<Rightarrow> \<lparr> response = Status400, store = d, sent = [] \<rparr>
      | Some validatedData \<Rightarrow>
          (case createTicket d now validatedData of
             (Inl e, d1) \<Rightarrow> \<lparr> response = Status500, store = d1, sent = [] \<rparr>
           | (Inr t, d1) \<Rightarrow>
               (let adminUsers =
                      filter (\<lambda>u. role u = Some ''admin'' \<and> truthy (email u)) (getTeamMembers d1);
                    adminEmails = List.map_filter email adminUsers
                in \<lparr> response = Status201 t, store = d1,
                     sent = (if adminEmails \<noteq> []
                             then (case getUser d1 uid of
                                     None \<Rightarrow> []
                                   | Some _ \<Rightarrow> sendTicketCreatedNotification t adminEmails)
                             else []) \<rparr>)))"

definition stamp_updates :: "partial_ticket \<Rightarrow> ticket \<Rightarrow> timestamp \<Rightarrow> partial_ticket" where
  "stamp_updates validatedData t now =
     (let updates = validatedData;
          updates1 = (if p_status validatedData = Given Resolved \<and> resolvedAt t = None
                      then updates\<lparr> p_resolvedAt := Some now \<rparr> else updates)
      in if p_status validatedData = Given Closed \<and> closedAt t = None
         then updates1\<lparr> p_closedAt := Some now \<rparr> else updates1)"

definition closed_notification ::
  "db \<Rightarrow> int \<Rightarrow> partial_ticket \<Rightarrow> ticket \<Rightarrow> error + mail list" where
  "closed_notification d tid validatedData t =
     (if p_status validatedData = Given Closed \<and> status t \<noteq> Some Closed
      then (case getTicketById d tid of
              Inl e \<Rightarrow> Inl e
            | Inr None \<Rightarrow> Inr []
            | Inr (Some fullTicket) \<Rightarrow> sendTicketClosedNotification fullTicket)
      else Inr [])"

definition assigned_notification ::
  "db \<Rightarrow> int \<Rightarrow> partial_ticket \<Rightarrow> ticket \<Rightarrow> error + mail list" where
  "assigned_notification d tid validatedData t =
     (case p_assignedTo validatedData of
        Given a \<Rightarrow>
          if a \<noteq> [] \<and> Some a \<noteq> assignedTo t
          then (case getUser d a of
                  None \<Rightarrow> Inr []
                | Some assignee_user \<Rightarrow>
                    (case getTicketById d tid of
                       Inl e \<Rightarrow> Inl e
                     | Inr None \<Rightarrow> Inr []
                     | Inr (Some fullTicket) \<Rightarrow>
                         sendTicketAssignedNotification fullTicket assignee_user))
          else Inr []
      | _ \<Rightarrow> Inr [])"

definition patch_api_tickets_id ::
  "db \<Rightarrow> timestamp \<Rightarrow> string \<Rightarrow> int \<Rightarrow> body \<Rightarrow> ticket option outcome" where
  "patch_api_tickets_id d now uid tid b =
     (let user = getUser d uid
      in case getTicketById d tid of
           Inl e \<Rightarrow> \<lparr> response = Status500, store = d, sent = [] \<rparr>
         | Inr None \<Rightarrow> \<lparr> response = Status404, store = d, sent = [] \<rparr>
         | Inr (Some t) \<Rightarrow>
             if \<not> isAdmin user \<and> assignedTo (tk t) \<noteq> Some uid
             then \<lparr> response = Status403, store = d, sent = [] \<rparr>
             else
               (case updateTicketSchema ([''id'' \<mapsto> JNum tid] ++ b) of
                  None \<Rightarrow> \<lparr> response = Status400, store = d, sent = [] \<rparr>
                | Some validatedData \<Rightarrow>
                    (case updateTicket d now tid (stamp_updates validatedData (tk t) now) of
                       (Inl e, d1) \<Rightarrow> \<lparr> response = Status500, store = d1, sent = [] \<rparr>
                     | (Inr updatedTicket, d1) \<Rightarrow>
                         (case closed_notification d1 tid validatedData (tk t) of
                            Inl e \<Rightarrow> \<lparr> response = Status500, store = d1, sent = [] \<rparr>
                          | Inr ms1 \<Rightarrow>
                              (case assigned_notification d1 tid validatedData (tk t) of
                                 Inl e \<Rightarrow> \<lparr> response = Status500, store = d1, sent = ms1 \<rparr>
                               | Inr ms2 \<Rightarrow>
                                   \<lparr> response = Status200 updatedTicket, store = d1,
                                     sent = ms1 @ ms2 \<rparr>)))))"

definition delete_api_tickets_id :: "db \<Rightarrow> string \<Rightarrow> int \<Rightarrow> unit outcome" where
  "delete_api_tickets_id d uid tid =
     (let user = getUser d uid
      in if \<not> isAdmin user then \<lparr> response = Status403, store = d, sent = [] \<rparr>
         else (case deleteTicket d tid of
                 (Inl e, d1) \<Rightarrow> \<lparr> response = Status500, store = d1, sent = [] \<rparr>
               | (Inr _, d1) \<Rightarrow> \<lparr> response = Status204, store = d1, sent = [] \<rparr>))"

definition post_api_tickets_id_comments ::
  "db \<Rightarrow> timestamp \<Rightarrow> string \<Rightarrow> int \<Rightarrow> body \<Rightarrow> comment outcome" where
  "post_api_tickets_id_comments d now uid tid b =
     (let user = getUser d uid
      in case getTicketById d tid of
           Inl e \<Rightarrow> \<lparr> response = Status500, store = d, sent = [] \<rparr>
         | Inr None \<Rightarrow> \<lparr> response = Status404, store = d, sent = [] \<rparr>
         | Inr (Some t) \<Rightarrow>
             if \<not> isAdmin user \<and> createdBy (tk t) \<noteq> uid \<and> assignedTo (tk t) \<noteq> Some uid
             then \<lparr> response = Status403, store = d, sent = [] \<rparr>
             else
               (case insertCommentSchema (b(''ticketId'' \<mapsto> JNum tid, ''userId'' \<mapsto> JStr uid)) of
                  None \<Rightarrow> \<lparr> response = Status400, store = d, sent = [] \<rparr>
                | Some validatedData \<Rightarrow>
                    (case createComment d now validatedData of
                       (Inl e, d1) \<Rightarrow> \<lparr> response = Status500, store = d1, sent = [] \<rparr>
                     | (Inr c, d1) \<Rightarrow> \<lparr> response = Status201 c, store = d1, sent = [] \<rparr>)))"

text \<open>
  Requests are handled one after another: a list of PATCH requests (clock, caller, id,
  body), each run on the store its predecessor left.
\<close>

fun patch_requests :: "db \<Rightarrow> (timestamp \<times> string \<times> int \<times> body) list \<Rightarrow> db" where
  "patch_requests d [] = d"
| "patch_requests d ((now, uid, tid, b) # rs) =
     patch_requests (store (patch_api_tickets_id d now uid tid b)) rs"

section \<open>Example stores\<close>

text \<open>
  Three users (two employees and an admin), and stores built from them: an empty one, and
  one holding a single open ticket that alice created.
\<close>

definition alice :: user where
  "alice = \<lparr> u_id = ''alice'', email = Some ''alice@example.com'', role = Some ''employee'' \<rparr>"

definition bob :: user where
  "bob = \<lparr> u_id = ''bob'', email = Some ''bob@example.com'', role = Some ''employee'' \<rparr>"

definition carol :: user where
  "carol = \<lparr> u_id = ''carol'', email = Some ''carol@example.com'', role = Some ''admin'' \<rparr>"

definition db_empty :: db where
  "db_empty = \<lparr> users = [alice, bob, carol], tickets = [], comments = [],
     tickets_id_seq = 0, comments_id_seq = 0, comments_ticket_id_seq = 0 \<rparr>"

definition ticket1 :: ticket where
  "ticket1 = \<lparr> t_id = 1, ticketNumber = ''TKT-0001'', subject = ''printer'',
     description = ''no toner'', priority = Low, status = Some Open, category = Hardware,
     department = None, createdBy = ''alice'', assignedTo = None, createdAt = Some 100,
     updatedAt = Some 100, resolvedAt = None, closedAt = None \<rparr>"

definition db_one_open :: db where
  "db_one_open = \<lparr> users = [alice, bob, carol], tickets = [ticket1], comments = [],
     tickets_id_seq = 1, comments_id_seq = 0, comments_ticket_id_seq = 0 \<rparr>"

text \<open>The same store after the admin has assigned the ticket to bob.\<close>

definition db_assigned :: db where
  "db_assigned = db_one_open\<lparr> tickets := [ticket1\<lparr> assignedTo := Some ''bob'' \<rparr>] \<rparr>"

text \<open>The body of a valid creation request.\<close>

definition new_ticket_body :: body where
  "new_ticket_body = [''subject'' \<mapsto> JStr ''printer'', ''description'' \<mapsto> JStr ''no toner'',
     ''priority'' \<mapsto> JStr ''low'', ''category'' \<mapsto> JStr ''hardware'']"

text \<open>
  The store after alice has created a ticket through the POST route, and after the admin
  has then deleted it.
\<close>

definition db_created :: db where
  "db_created = store (post_api_tickets db_empty 100 ''alice'' new_ticket_body)"

definition db_deleted :: db where
  "db_deleted = store (delete_api_tickets_id db_created ''carol'' 1)"

text \<open>Two tickets created, then the first one deleted.\<close>

definition db_second_left :: db where
  "db_second_left =
     store (delete_api_tickets_id
              (store (post_api_tickets db_created 150 ''bob'' new_ticket_body)) ''carol'' 1)"

text \<open>
  The POST route accepts a \<open>status\<close> in the body: the store after alice has created a
  ticket directly in status resolved.
\<close>

definition db_created_resolved :: db where
  "db_created_resolved =
     store (post_api_tickets db_empty 100 ''alice''
              (new_ticket_body(''status'' \<mapsto> JStr ''resolved'')))"

text \<open>The single ticket after the admin has closed it through the PATCH route at 200.\<close>

definition ticket1_closed :: ticket where
  "ticket1_closed = ticket1\<lparr> status := Some Closed, closedAt := Some 200, updatedAt := Some 200 \<rparr>"

definition db_closed :: db where
  "db_closed = db_one_open\<lparr> tickets := [ticket1_closed] \<rparr>"

text \<open>Two later requests of the admin on the closed ticket: reopen it, then close it.\<close>

definition reopen_and_close :: "(timestamp \<times> string \<times> int \<times> body) list" where
  "reopen_and_close =
     [(300, ''carol'', 1, [''status'' \<mapsto> JStr ''open'']),
      (400, ''carol'', 1, [''status'' \<mapsto> JStr ''closed''])]"

section \<open>Statistics\<close>

lemma count_expr_sql_eq:
  "count_expr (\<lambda>t. sql_eq (status t) v) ts = length (filter (\<lambda>t. status t \<noteq> None) ts)"
  by (simp add: count_expr_def sql_eq_def split: option.splits cong: filter_cong)

text \<open>
  C2. The claim: the four status counts are the numbers of tickets holding each status and
  sum to \<open>total\<close>. On the store with a single open ticket the code returns 1 for the total
  and 1 for every one of the four counts, so a ticket that is open is also counted as in
  progress, resolved and closed, and the counts sum to 4.
\<close>

theorem getTicketStats_one_open:
  "getTicketStats db_one_open =
     \<lparr> total = 1, open_count = 1, inProgress = 1, resolved = 1, closed = 1 \<rparr>
   \<and> open_count (getTicketStats db_one_open) + inProgress (getTicketStats db_one_open)
       + resolved (getTicketStats db_one_open) + closed (getTicketStats db_one_open)
     \<noteq> total (getTicketStats db_one_open)"
  by (simp add: getTicketStats_def count_rows_def count_expr_sql_eq
      db_one_open_def ticket1_def)

section \<open>Listing tickets\<close>

lemma set_insert_desc: "set (insert_desc k r xs) = insert r (set xs)"
  by (induction xs) auto

lemma set_orderByDesc: "set (orderByDesc k rs) = set rs"
  unfolding orderByDesc_def by (induction rs) (simp_all add: set_insert_desc)

lemma leftJoin_Nil: "leftJoin [] ys on = []"
  by (simp add: leftJoin_def)

lemma leftJoin_Cons:
  "leftJoin (x # xs) ys on =
     (case filter (on x) ys of [] \<Rightarrow> [(x, None)] | m # ms \<Rightarrow> map (\<lambda>y. (x, Some y)) (m # ms))
     @ leftJoin xs ys on"
  by (simp add: leftJoin_def)

lemma filter_leftJoin:
  "filter (\<lambda>r. P (fst r)) (leftJoin xs ys on) = leftJoin (filter P xs) ys on"
proof (induction xs)
  case Nil
  show ?case by (simp add: leftJoin_Nil)
next
  case (Cons x xs)
  then show ?case
    by (cases "filter (on x) ys") (simp_all add: leftJoin_Cons o_def)
qed

lemma fst_set_leftJoin: "fst ` set (leftJoin xs ys on) = set xs"
proof (induction xs)
  case Nil
  show ?case by (simp add: leftJoin_Nil)
next
  case (Cons x xs)
  then show ?case
    by (cases "filter (on x) ys") (auto simp: leftJoin_Cons image_Un image_image)
qed

lemma filter_ticket_rows:
  "filter (\<lambda>r. P (row_ticket r)) (ticket_rows d) =
     leftJoin (leftJoin (filter P (tickets d)) (users d) (\<lambda>t u. createdBy t = u_id u))
       (users d) (\<lambda>r u. assignedTo (fst r) = Some (u_id u))"
proof -
  let ?inner = "leftJoin (tickets d) (users d) (\<lambda>t u. createdBy t = u_id u)"
  let ?on2 = "\<lambda>(r :: ticket \<times> user option) u. assignedTo (fst r) = Some (u_id u)"
  have "filter (\<lambda>r. P (row_ticket r)) (ticket_rows d)
      = filter (\<lambda>r. (\<lambda>q. P (fst q)) (fst r)) (leftJoin ?inner (users d) ?on2)"
    by (simp add: ticket_rows_def row_ticket_def)
  also have "\<dots> = leftJoin (filter (\<lambda>q. P (fst q)) ?inner) (users d) ?on2"
    by (rule filter_leftJoin)
  also have "filter (\<lambda>q. P (fst q)) ?inner
      = leftJoin (filter P (tickets d)) (users d) (\<lambda>t u. createdBy t = u_id u)"
    by (rule filter_leftJoin)
  finally show ?thesis .
qed

lemma row_ticket_set_leftJoin:
  "row_ticket ` set (leftJoin (leftJoin ts us on1) us' on2) = set ts"
proof -
  have "row_ticket ` set (leftJoin (leftJoin ts us on1) us' on2)
      = fst ` fst ` set (leftJoin (leftJoin ts us on1) us' on2)"
    by (simp add: image_image row_ticket_def)
  then show ?thesis by (simp add: fst_set_leftJoin)
qed

lemma tk_to_ticket_with_users: "tk (to_ticket_with_users r) = row_ticket r"
  by (simp add: to_ticket_with_users_def row_ticket_def)

lemma set_getAllTickets: "set (map tk (getAllTickets d)) = set (tickets d)"
proof -
  have "set (map tk (getAllTickets d)) = row_ticket ` set (ticket_rows d)"
    by (simp add: getAllTickets_def set_orderByDesc image_image tk_to_ticket_with_users)
  then show ?thesis by (simp add: ticket_rows_def row_ticket_set_leftJoin)
qed

lemma set_getTicketsByUser:
  "set (map tk (getTicketsByUser d uid)) = {t \<in> set (tickets d). createdBy t = uid}"
proof -
  have "set (map tk (getTicketsByUser d uid))
      = row_ticket ` set (filter (\<lambda>r. createdBy (row_ticket r) = uid) (ticket_rows d))"
    by (simp add: getTicketsByUser_def set_orderByDesc image_image tk_to_ticket_with_users)
  also have "\<dots> = set (filter (\<lambda>t. createdBy t = uid) (tickets d))"
    using filter_ticket_rows [of "\<lambda>t. createdBy t = uid" d]
    by (simp add: row_ticket_set_leftJoin del: set_filter)
  finally show ?thesis by simp
qed

text \<open>
  C8. For a principal who is not an admin, the tickets listed are exactly the tickets with
  \<open>createdBy\<close> equal to the principal's id: each listed ticket was created by the
  principal, each ticket the principal created is listed, and so a ticket that is only
  assigned to the principal is not. For an admin the list holds all tickets.
\<close>

theorem get_api_tickets_lists:
  "\<exists>ts. get_api_tickets d uid = Status200 ts
      \<and> set (map tk ts) =
          (if isAdmin (getUser d uid) then set (tickets d)
           else {t \<in> set (tickets d). createdBy t = uid})"
  by (simp add: get_api_tickets_def set_getAllTickets set_getTicketsByUser del: set_map)

section \<open>Reading one ticket\<close>

lemma find_filter_hd: "find P xs = (case filter P xs of [] \<Rightarrow> None | x # _ \<Rightarrow> Some x)"
  by (induction xs) simp_all

lemma leftJoin_Cons_hd: "\<exists>rest. leftJoin (x # xs) ys on = (x, find (on x) ys) # rest"
  by (cases "filter (on x) ys") (simp_all add: leftJoin_Cons find_filter_hd)

lemma find_assignee:
  "find (\<lambda>u. a = Some (u_id u)) us = (case a of None \<Rightarrow> None | Some x \<Rightarrow> find (\<lambda>u. u_id u = x) us)"
  by (induction us) (auto split: option.splits)

lemma find_creator: "find (\<lambda>u. c = u_id u) us = find (\<lambda>u. u_id u = c) us"
  by (induction us) auto

lemma first_row_find:
  "(case filter (\<lambda>r. t_id (row_ticket r) = i) (ticket_rows d) of
      [] \<Rightarrow> None
    | r # _ \<Rightarrow> Some \<lparr> tk = fst (fst r), creator = snd (fst r), assignee = snd r,
                      tk_comments = cs \<rparr>)
   = (case find (\<lambda>t. t_id t = i) (tickets d) of
        None \<Rightarrow> None
      | Some T \<Rightarrow> Some \<lparr> tk = T, creator = getUser d (createdBy T),
                         assignee = (case assignedTo T of None \<Rightarrow> None | Some a \<Rightarrow> getUser d a),
                         tk_comments = cs \<rparr>)"
proof (cases "filter (\<lambda>t. t_id t = i) (tickets d)")
  case Nil
  then have "find (\<lambda>t. t_id t = i) (tickets d) = None"
    by (simp add: find_filter_hd)
  then show ?thesis
    using Nil filter_ticket_rows [of "\<lambda>t. t_id t = i" d]
    by (simp add: leftJoin_Nil)
next
  case (Cons T rest)
  let ?on1 = "\<lambda>t u. createdBy t = u_id u"
  let ?on2 = "\<lambda>(r :: ticket \<times> user option) u. assignedTo (fst r) = Some (u_id u)"
  obtain r1 where r1: "leftJoin (T # rest) (users d) ?on1 = (T, find (?on1 T) (users d)) # r1"
    using leftJoin_Cons_hd [of T rest "users d" ?on1] by auto
  obtain r2 where r2: "leftJoin ((T, find (?on1 T) (users d)) # r1) (users d) ?on2
      = ((T, find (?on1 T) (users d)), find (?on2 (T, find (?on1 T) (users d))) (users d)) # r2"
    using leftJoin_Cons_hd [of "(T, find (?on1 T) (users d))" r1 "users d" ?on2] by auto
  have "filter (\<lambda>r. t_id (row_ticket r) = i) (ticket_rows d)
      = ((T, find (?on1 T) (users d)), find (?on2 (T, find (?on1 T) (users d))) (users d)) # r2"
    using filter_ticket_rows [of "\<lambda>t. t_id t = i" d] Cons r1 r2 by simp
  moreover have "find (\<lambda>t. t_id t = i) (tickets d) = Some T"
    using Cons by (simp add: find_filter_hd)
  ultimately show ?thesis
    by (simp add: getUser_def find_assignee find_creator split: option.splits)
qed

lemma getTicketById_find:
  "getTicketById d i =
     (if int4 i
      then Inr (case find (\<lambda>t. t_id t = i) (tickets d) of
                  None \<Rightarrow> None
                | Some T \<Rightarrow>
                    Some \<lparr> tk = T, creator = getUser d (createdBy T),
                           assignee = (case assignedTo T of None \<Rightarrow> None | Some a \<Rightarrow> getUser d a),
                           tk_comments = ticketComments d i \<rparr>)
      else Inl DbError)"
  by (simp add: getTicketById_def first_row_find)

lemma set_ticketComments:
  "set (map cm (ticketComments d tid)) = {c \<in> set (comments d). ticketId c = tid}"
proof -
  have "set (map cm (ticketComments d tid))
      = fst ` set (filter (\<lambda>r. ticketId (fst r) = tid)
                     (leftJoin (comments d) (users d) (\<lambda>c u. userId c = u_id u)))"
    by (simp add: ticketComments_def set_orderByDesc image_image)
  also have "\<dots> = set (filter (\<lambda>c. ticketId c = tid) (comments d))"
  proof -
    have "filter (\<lambda>r. ticketId (fst r) = tid)
            (leftJoin (comments d) (users d) (\<lambda>c u. userId c = u_id u))
        = leftJoin (filter (\<lambda>c. ticketId c = tid) (comments d)) (users d)
            (\<lambda>c u. userId c = u_id u)"
      by (rule filter_leftJoin)
    then show ?thesis by (simp only: fst_set_leftJoin)
  qed
  finally show ?thesis by simp
qed

text \<open>
  C9, as stated, fails: no ticket has the id 2147483648, yet reading it does not answer
  404. The id is outside the 32-bit range of the id column, the query throws and the
  answer is 500.
\<close>

theorem get_api_tickets_id_out_of_range:
  "2147483648 \<notin> t_id ` set (tickets db_one_open)
   \<and> get_api_tickets_id db_one_open ''carol'' 2147483648 = Status500
   \<and> get_api_tickets_id db_one_open ''carol'' 2147483648 \<noteq> Status404"
  by (simp add: get_api_tickets_id_def getTicketById_find int4_def db_one_open_def ticket1_def)

text \<open>
  C9, amended. For an id in the 32-bit range of the id column, reading a ticket answers
  404 (NotFound) exactly when no ticket has the id; for an existing ticket \<open>T\<close> (the row
  with that id) it answers 403 (AccessDenied) exactly when the principal is not an admin
  and is neither \<open>T\<close>'s creator nor its assignee, and otherwise 200 with the ticket, its
  creator, its assignee and its comments, which are the comments whose \<open>ticketId\<close> is the
  id. For an id outside that range it answers 500.
\<close>

theorem get_api_tickets_id_result:
  "get_api_tickets_id d uid tid =
     (if int4 tid
      then (case find (\<lambda>t. t_id t = tid) (tickets d) of
              None \<Rightarrow> Status404
            | Some T \<Rightarrow>
                if \<not> isAdmin (getUser d uid) \<and> createdBy T \<noteq> uid \<and> assignedTo T \<noteq> Some uid
                then Status403
                else Status200 \<lparr> tk = T, creator = getUser d (createdBy T),
                       assignee = (case assignedTo T of None \<Rightarrow> None | Some a \<Rightarrow> getUser d a),
                       tk_comments = ticketComments d tid \<rparr>)
      else Status500)
   \<and> (get_api_tickets_id d uid tid = Status404) = (int4 tid \<and> tid \<notin> t_id ` set (tickets d))
   \<and> set (map cm (ticketComments d tid)) = {c \<in> set (comments d). ticketId c = tid}"
proof -
  have a: "(find (\<lambda>t. t_id t = tid) (tickets d) = None) = (tid \<notin> t_id ` set (tickets d))"
    by (auto simp: find_None_iff)
  have b: "get_api_tickets_id d uid tid =
     (if int4 tid
      then (case find (\<lambda>t. t_id t = tid) (tickets d) of
              None \<Rightarrow> Status404
            | Some T \<Rightarrow>
                if \<not> isAdmin (getUser d uid) \<and> createdBy T \<noteq> uid \<and> assignedTo T \<noteq> Some uid
                then Status403
                else Status200 \<lparr> tk = T, creator = getUser d (createdBy T),
                       assignee = (case assignedTo T of None \<Rightarrow> None | Some a \<Rightarrow> getUser d a),
                       tk_comments = ticketComments d tid \<rparr>)
      else Status500)"
    by (simp add: get_api_tickets_id_def getTicketById_find split: option.splits)
  have c: "(get_api_tickets_id d uid tid = Status404) = (int4 tid \<and> tid \<notin> t_id ` set (tickets d))"
    unfolding b a [symmetric] by (simp split: option.splits)
  show ?thesis using b c set_ticketComments by blast
qed

section \<open>Deleting a ticket\<close>

text \<open>
  C10. Deleting a ticket removes no comment: the comment table after
  \<open>storage.deleteTicket\<close>, and after the DELETE route, is the table before, whether or not
  comments reference the ticket (then the statement throws and nothing changes). The users
  are untouched and every ticket with another id stays.
\<close>

theorem deleteTicket_keeps_comments:
  "comments (snd (deleteTicket d i)) = comments d
   \<and> comments (store (delete_api_tickets_id d uid i)) = comments d
   \<and> users (snd (deleteTicket d i)) = users d
   \<and> set (tickets (snd (deleteTicket d i))) \<supseteq> {t \<in> set (tickets d). t_id t \<noteq> i}"
  by (auto simp: deleteTicket_def delete_api_tickets_id_def)

section \<open>Updating a ticket\<close>

text \<open>
  What the PATCH route does to the table: nothing, or it rewrites the rows with the
  requested id by \<open>apply_set\<close>. The primary key makes the ids distinct, and then the one
  rewritten row is the row the route read before.
\<close>

lemma find_unique:
  assumes "distinct (map f xs)" and "find (\<lambda>x. f x = k) xs = Some y"
    and "x \<in> set xs" and "f x = k"
  shows "x = y"
proof -
  have "y \<in> set xs" and "f y = k"
    using assms(2) by (auto simp: find_Some_iff)
  moreover have "inj_on f (set xs)"
    using assms(1) by (simp add: distinct_map)
  ultimately show ?thesis
    using assms(3,4) by (auto dest: inj_onD)
qed

lemma patch_store_cases:
  "store (patch_api_tickets_id d now uid tid b) = d
   \<or> (\<exists>T v. find (\<lambda>t. t_id t = tid) (tickets d) = Some T
         \<and> updateTicketSchema ([''id'' \<mapsto> JNum tid] ++ b) = Some v
         \<and> (isAdmin (getUser d uid) \<or> assignedTo T = Some uid)
         \<and> \<not> update_violation d tid (stamp_updates v T now)
         \<and> store (patch_api_tickets_id d now uid tid b)
             = d\<lparr> tickets := map (\<lambda>t. if t_id t = tid
                                       then apply_set (stamp_updates v T now) now t else t)
                                 (tickets d) \<rparr>)"
  by (auto simp: patch_api_tickets_id_def getTicketById_find updateTicket_def Let_def
      split: option.splits sum.splits prod.splits if_splits)

lemma patch_rows:
  assumes "distinct (map t_id (tickets d))"
  shows "list_all2
           (\<lambda>t t'. t' = t
              \<or> (\<exists>v. updateTicketSchema ([''id'' \<mapsto> JNum tid] ++ b) = Some v
                     \<and> t_id t = tid \<and> t' = apply_set (stamp_updates v t now) now t))
           (tickets d) (tickets (store (patch_api_tickets_id d now uid tid b)))"
proof -
  consider (same) "store (patch_api_tickets_id d now uid tid b) = d"
    | (upd) T v where "find (\<lambda>t. t_id t = tid) (tickets d) = Some T"
        "updateTicketSchema ([''id'' \<mapsto> JNum tid] ++ b) = Some v"
        "store (patch_api_tickets_id d now uid tid b)
           = d\<lparr> tickets := map (\<lambda>t. if t_id t = tid
                                     then apply_set (stamp_updates v T now) now t else t)
                               (tickets d) \<rparr>"
    using patch_store_cases [of d now uid tid b] by blast
  then show ?thesis
  proof cases
    case same
    then show ?thesis by (simp add: list_all2_same)
  next
    case upd
    have "\<And>t. t \<in> set (tickets d) \<Longrightarrow> t_id t = tid \<Longrightarrow> t = T"
      using find_unique [OF assms upd(1)] by blast
    then show ?thesis
      using upd(2,3) by (auto simp: list_all2_map2 list_all2_same)
  qed
qed


lemma find_nth_distinct:
  assumes "distinct (map f xs)" and "i < length xs"
  shows "find (\<lambda>x. f x = f (xs ! i)) xs = Some (xs ! i)"
proof -
  have mem: "xs ! i \<in> set xs" using assms(2) by simp
  then obtain y where y: "find (\<lambda>x. f x = f (xs ! i)) xs = Some y"
    by (cases "find (\<lambda>x. f x = f (xs ! i)) xs") (auto simp: find_None_iff)
  have "xs ! i = y"
    using find_unique [OF assms(1) y mem] by simp
  then show ?thesis using y by simp
qed

lemma patch_status200:
  assumes "response (patch_api_tickets_id d now uid tid b) = Status200 r"
  shows "\<exists>T v. find (\<lambda>t. t_id t = tid) (tickets d) = Some T
           \<and> updateTicketSchema ([''id'' \<mapsto> JNum tid] ++ b) = Some v
           \<and> tickets (store (patch_api_tickets_id d now uid tid b))
               = map (\<lambda>t. if t_id t = tid then apply_set (stamp_updates v T now) now t else t)
                   (tickets d)"
  using assms
  by (auto simp: patch_api_tickets_id_def getTicketById_find updateTicket_def Let_def
      split: option.splits sum.splits prod.splits if_splits)

lemma distinct_replace:
  "distinct xs \<Longrightarrow> j \<notin> set xs \<Longrightarrow> distinct (map (\<lambda>i. if i = k then j else i) xs)"
  by (auto simp: distinct_map inj_on_def)

lemma p_id_stamp_updates: "p_id (stamp_updates v t now) = p_id v"
  by (simp add: stamp_updates_def Let_def)

lemma t_id_apply_set: "t_id (apply_set u now t) = set_col (p_id u) (t_id t)"
  by (simp add: apply_set_def)

lemma patch_keeps_ids_distinct:
  assumes "distinct (map t_id (tickets d))"
  shows "distinct (map t_id (tickets (store (patch_api_tickets_id d now uid tid b))))"
proof -
  consider (same) "store (patch_api_tickets_id d now uid tid b) = d"
    | (upd) T v where "find (\<lambda>t. t_id t = tid) (tickets d) = Some T"
        "\<not> update_violation d tid (stamp_updates v T now)"
        "store (patch_api_tickets_id d now uid tid b)
           = d\<lparr> tickets := map (\<lambda>t. if t_id t = tid
                                     then apply_set (stamp_updates v T now) now t else t)
                               (tickets d) \<rparr>"
    using patch_store_cases [of d now uid tid b] by blast
  then show ?thesis
  proof cases
    case same
    then show ?thesis using assms by simp
  next
    case upd
    let ?u = "stamp_updates v T now"
    have ex: "list_ex (\<lambda>t. t_id t = tid) (tickets d)"
      using upd(1) by (auto simp: find_Some_iff list_ex_iff)
    have ids: "map t_id (tickets (store (patch_api_tickets_id d now uid tid b)))
        = map (\<lambda>i. if i = tid then set_col (p_id ?u) tid else i) (map t_id (tickets d))"
      unfolding upd(3) by (simp add: t_id_apply_set o_def cong: map_cong)
    show ?thesis
    proof (cases "set_col (p_id ?u) tid = tid")
      case True
      then have "map t_id (tickets (store (patch_api_tickets_id d now uid tid b)))
          = map t_id (tickets d)"
        unfolding ids by (simp add: map_idI)
      then show ?thesis using assms by simp
    next
      case False
      then have "set_col (p_id ?u) tid \<notin> set (map t_id (tickets d))"
        using upd(2) ex
        by (auto simp: update_violation_def set_col_def list_ex_iff
            split: option.splits if_splits)
      then show ?thesis
        unfolding ids using assms by (rule distinct_replace [rotated])
    qed
  qed
qed

lemma patch_requests_ids_distinct:
  "distinct (map t_id (tickets d)) \<Longrightarrow> distinct (map t_id (tickets (patch_requests d rs)))"
  by (induction d rs rule: patch_requests.induct) (simp_all add: patch_keeps_ids_distinct)

text \<open>The routes that create and delete tickets keep the ids distinct as well.\<close>

lemma createTicket_tickets:
  "tickets (snd (createTicket d now t)) = tickets d
   \<or> (\<exists>n. t_id n \<notin> set (map t_id (tickets d))
          \<and> tickets (snd (createTicket d now t)) = tickets d @ [n])"
  unfolding createTicket_def Let_def
  by (auto simp: list_ex_iff split: if_splits)

lemma post_keeps_ids_distinct:
  assumes "distinct (map t_id (tickets d))"
  shows "distinct (map t_id (tickets (store (post_api_tickets d now uid b))))"
proof -
  have "store (post_api_tickets d now uid b) = d
      \<or> (\<exists>v. store (post_api_tickets d now uid b) = snd (createTicket d now v))"
  proof (cases "insertTicketSchema (b(''createdBy'' \<mapsto> JStr uid))")
    case None
    then show ?thesis by (simp add: post_api_tickets_def)
  next
    case (Some v)
    then have "store (post_api_tickets d now uid b) = snd (createTicket d now v)"
      by (cases "createTicket d now v")
        (auto simp: post_api_tickets_def Let_def split: sum.splits)
    then show ?thesis by blast
  qed
  moreover have "distinct (map t_id (tickets (snd (createTicket d now v))))" for v
    using createTicket_tickets [of d now v] assms by auto
  ultimately show ?thesis using assms by auto
qed

lemma delete_keeps_ids_distinct:
  assumes "distinct (map t_id (tickets d))"
  shows "distinct (map t_id (tickets (store (delete_api_tickets_id d uid tid))))"
  using assms
  by (simp add: delete_api_tickets_id_def deleteTicket_def distinct_map_filter Let_def)

lemma requested_status:
  assumes "updateTicketSchema ([''id'' \<mapsto> JNum tid] ++ b) = Some v"
  shows "(p_status v = Given Resolved) = (b ''status'' = Some (JStr ''resolved''))"
    and "(p_status v = Given Closed) = (b ''status'' = Some (JStr ''closed''))"
    and "p_resolvedAt v = None" and "p_closedAt v = None"
proof -
  have st: "([''id'' \<mapsto> JNum tid] ++ b) ''status'' = b ''status''"
    by (simp add: map_add_def split: option.splits)
  obtain x where x: "z_nullish (z_enum ticketStatusEnum) (b ''status'') = Some x"
    and v: "p_status v = x" "p_resolvedAt v = None" "p_closedAt v = None"
    using assms unfolding updateTicketSchema_def st
    by (auto split: Option.bind_splits)
  show "p_resolvedAt v = None" and "p_closedAt v = None" using v by simp_all
  show "(p_status v = Given Resolved) = (b ''status'' = Some (JStr ''resolved''))"
    using x v(1)
    by (auto simp: z_nullish_def z_enum_def ticketStatusEnum_def
        split: option.splits json.splits if_splits)
  show "(p_status v = Given Closed) = (b ''status'' = Some (JStr ''closed''))"
    using x v(1)
    by (auto simp: z_nullish_def z_enum_def ticketStatusEnum_def
        split: option.splits json.splits if_splits)
qed

lemma apply_set_resolvedAt:
  assumes "p_resolvedAt v = None"
  shows "resolvedAt (apply_set (stamp_updates v t now) now t)
         = (if p_status v = Given Resolved \<and> resolvedAt t = None then Some now else resolvedAt t)"
  using assms by (simp add: apply_set_def stamp_updates_def set_stamp_def Let_def)

lemma apply_set_closedAt:
  assumes "p_closedAt v = None"
  shows "closedAt (apply_set (stamp_updates v t now) now t)
         = (if p_status v = Given Closed \<and> closedAt t = None then Some now else closedAt t)"
  using assms by (simp add: apply_set_def stamp_updates_def set_stamp_def Let_def)

lemma apply_set_status:
  "status (apply_set (stamp_updates v t now) now t) = field_to_column (p_status v) (status t)"
  by (simp add: apply_set_def stamp_updates_def Let_def)

text \<open>
  C1. The claim: when the caller is not an admin but is the ticket's assignee, a requested
  change of \<open>assignedTo\<close> is not applied. On the store where the ticket is assigned to bob,
  an employee, bob's own request to assign it to alice is applied.
\<close>

theorem assignee_reassigns:
  "\<not> isAdmin (getUser db_assigned ''bob'')
   \<and> map assignedTo (tickets db_assigned) = [Some ''bob'']
   \<and> map assignedTo
        (tickets (store (patch_api_tickets_id db_assigned 200 ''bob'' 1
                           [''assignedTo'' \<mapsto> JStr ''alice'']))) = [Some ''alice'']"
  by code_simp

text \<open>
  C3. The claim: no update changes \<open>createdBy\<close>. The update schema accepts the key, and the
  admin's request with \<open>createdBy\<close> in the body rewrites the creator of alice's ticket.
\<close>

theorem patch_changes_createdBy:
  "map createdBy (tickets db_assigned) = [''alice'']
   \<and> map createdBy
        (tickets (store (patch_api_tickets_id db_assigned 200 ''carol'' 1
                           [''createdBy'' \<mapsto> JStr ''bob'']))) = [''bob'']"
  by code_simp

subsection \<open>resolvedAt\<close>

text \<open>
  C6. The claim: for every ticket, \<open>resolvedAt\<close> is null until the ticket first enters
  status resolved, is stamped then, and stays constant. The POST route stores a status
  that the body supplies and stamps nothing: the ticket created with status resolved is
  resolved with a null \<open>resolvedAt\<close>, and the later PATCH request for status resolved,
  which changes no status, stamps it.
\<close>

theorem resolvedAt_without_transition:
  "map status (tickets db_created_resolved) = [Some Resolved]
   \<and> map resolvedAt (tickets db_created_resolved) = [None]
   \<and> map status (tickets (store (patch_api_tickets_id db_created_resolved 200 ''carol'' 1
                                   [''status'' \<mapsto> JStr ''resolved'']))) = [Some Resolved]
   \<and> map resolvedAt (tickets (store (patch_api_tickets_id db_created_resolved 200 ''carol'' 1
                                       [''status'' \<mapsto> JStr ''resolved'']))) = [Some 200]"
  by code_simp

text \<open>
  The PATCH route itself stamps once: a successful request for status resolved leaves the
  row resolved with \<open>resolvedAt\<close> set, and no later sequence of PATCH requests changes a
  \<open>resolvedAt\<close> that is set.
\<close>

lemma resolving_stamps:
  assumes "distinct (map t_id (tickets d))"
    and "i < length (tickets d)"
    and "t_id (tickets d ! i) = tid"
    and "b ''status'' = Some (JStr ''resolved'')"
    and "response (patch_api_tickets_id d now uid tid b) = Status200 r"
  shows "status (tickets (store (patch_api_tickets_id d now uid tid b)) ! i) = Some Resolved
       \<and> resolvedAt (tickets (store (patch_api_tickets_id d now uid tid b)) ! i)
           = (case resolvedAt (tickets d ! i) of None \<Rightarrow> Some now | Some x \<Rightarrow> Some x)"
proof -
  obtain T v where T: "find (\<lambda>t. t_id t = tid) (tickets d) = Some T"
    and v: "updateTicketSchema ([''id'' \<mapsto> JNum tid] ++ b) = Some v"
    and st: "tickets (store (patch_api_tickets_id d now uid tid b))
       = map (\<lambda>t. if t_id t = tid then apply_set (stamp_updates v T now) now t else t) (tickets d)"
    using patch_status200 [OF assms(5)] by blast
  have "find (\<lambda>t. t_id t = tid) (tickets d) = Some (tickets d ! i)"
    using find_nth_distinct [OF assms(1,2)] assms(3) by simp
  then have Ti: "T = tickets d ! i" using T by simp
  have row: "tickets (store (patch_api_tickets_id d now uid tid b)) ! i
      = apply_set (stamp_updates v T now) now T"
    unfolding st using assms(2,3) Ti by simp
  have "p_status v = Given Resolved"
    using requested_status(1) [OF v] assms(4) by simp
  then show ?thesis
    unfolding row
    by (simp add: apply_set_resolvedAt [OF requested_status(3) [OF v]] apply_set_status
        field_to_column_def Ti split: option.splits)
qed

lemma resolvedAt_kept:
  assumes "distinct (map t_id (tickets d))"
  shows "list_all2 (\<lambda>t t'. resolvedAt t = None \<or> resolvedAt t' = resolvedAt t)
           (tickets d) (tickets (store (patch_api_tickets_id d now uid tid b)))"
proof (rule list_all2_mono [OF patch_rows [OF assms, of tid b now uid]])
  fix t t'
  assume "t' = t
     \<or> (\<exists>v. updateTicketSchema ([''id'' \<mapsto> JNum tid] ++ b) = Some v
            \<and> t_id t = tid \<and> t' = apply_set (stamp_updates v t now) now t)"
  then show "resolvedAt t = None \<or> resolvedAt t' = resolvedAt t"
    by (auto simp: apply_set_resolvedAt requested_status(3) split: if_splits)
qed

lemma kept_trans:
  assumes "list_all2 (\<lambda>t t'. f t = None \<or> f t' = f t) xs ys"
    and "list_all2 (\<lambda>t t'. f t = None \<or> f t' = f t) ys zs"
  shows "list_all2 (\<lambda>t t'. f t = None \<or> f t' = f t) xs zs"
  by (rule list_all2_trans [OF _ assms]) auto

lemma resolvedAt_kept_requests:
  "distinct (map t_id (tickets d)) \<Longrightarrow>
   list_all2 (\<lambda>t t'. resolvedAt t = None \<or> resolvedAt t' = resolvedAt t)
     (tickets d) (tickets (patch_requests d rs))"
proof (induction d rs rule: patch_requests.induct)
  case (1 d)
  show ?case by (simp add: list_all2_same)
next
  case (2 d now uid tid b rs)
  have "list_all2 (\<lambda>t t'. resolvedAt t = None \<or> resolvedAt t' = resolvedAt t)
          (tickets (store (patch_api_tickets_id d now uid tid b)))
          (tickets (patch_requests (store (patch_api_tickets_id d now uid tid b)) rs))"
    using 2 by (simp add: patch_keeps_ids_distinct)
  then show ?case
    using kept_trans [OF resolvedAt_kept [OF "2.prems", of now uid tid b]] by simp
qed

subsection \<open>closedAt and the closure mail\<close>

lemma closed_notification_closed:
  "status t = Some Closed \<Longrightarrow> closed_notification d tid v t = Inr []"
  by (simp add: closed_notification_def)

lemma assigned_notification_kind:
  "assigned_notification d tid v t = Inr ms \<Longrightarrow> filter (\<lambda>m. kind m = TicketClosed) ms = []"
  by (auto simp: assigned_notification_def sendTicketAssignedNotification_def
      split: field.splits option.splits sum.splits if_splits)

lemma patch_sent_closed:
  assumes "find (\<lambda>t. t_id t = tid) (tickets d) = Some T" and "status T = Some Closed"
  shows "filter (\<lambda>m. kind m = TicketClosed) (sent (patch_api_tickets_id d now uid tid b)) = []"
  using assms
  by (auto simp: patch_api_tickets_id_def getTicketById_find closed_notification_closed Let_def
      split: option.splits sum.splits prod.splits dest: assigned_notification_kind)

lemma closing_stamps:
  assumes "distinct (map t_id (tickets d))"
    and "i < length (tickets d)"
    and "t_id (tickets d ! i) = tid"
    and "b ''status'' = Some (JStr ''closed'')"
    and "response (patch_api_tickets_id d now uid tid b) = Status200 r"
  shows "status (tickets (store (patch_api_tickets_id d now uid tid b)) ! i) = Some Closed
       \<and> closedAt (tickets (store (patch_api_tickets_id d now uid tid b)) ! i)
           = (case closedAt (tickets d ! i) of None \<Rightarrow> Some now | Some x \<Rightarrow> Some x)"
proof -
  obtain T v where T: "find (\<lambda>t. t_id t = tid) (tickets d) = Some T"
    and v: "updateTicketSchema ([''id'' \<mapsto> JNum tid] ++ b) = Some v"
    and st: "tickets (store (patch_api_tickets_id d now uid tid b))
       = map (\<lambda>t. if t_id t = tid then apply_set (stamp_updates v T now) now t else t) (tickets d)"
    using patch_status200 [OF assms(5)] by blast
  have "find (\<lambda>t. t_id t = tid) (tickets d) = Some (tickets d ! i)"
    using find_nth_distinct [OF assms(1,2)] assms(3) by simp
  then have Ti: "T = tickets d ! i" using T by simp
  have row: "tickets (store (patch_api_tickets_id d now uid tid b)) ! i
      = apply_set (stamp_updates v T now) now T"
    unfolding st using assms(2,3) Ti by simp
  have "p_status v = Given Closed"
    using requested_status(2) [OF v] assms(4) by simp
  then show ?thesis
    unfolding row
    by (simp add: apply_set_closedAt [OF requested_status(4) [OF v]] apply_set_status
        field_to_column_def Ti split: option.splits)
qed

lemma closedAt_kept:
  assumes "distinct (map t_id (tickets d))"
  shows "list_all2 (\<lambda>t t'. closedAt t = None \<or> closedAt t' = closedAt t)
           (tickets d) (tickets (store (patch_api_tickets_id d now uid tid b)))"
proof (rule list_all2_mono [OF patch_rows [OF assms, of tid b now uid]])
  fix t t'
  assume "t' = t
     \<or> (\<exists>v. updateTicketSchema ([''id'' \<mapsto> JNum tid] ++ b) = Some v
            \<and> t_id t = tid \<and> t' = apply_set (stamp_updates v t now) now t)"
  then show "closedAt t = None \<or> closedAt t' = closedAt t"
    by (auto simp: apply_set_closedAt requested_status(4) split: if_splits)
qed

lemma closedAt_kept_requests:
  "distinct (map t_id (tickets d)) \<Longrightarrow>
   list_all2 (\<lambda>t t'. closedAt t = None \<or> closedAt t' = closedAt t)
     (tickets d) (tickets (patch_requests d rs))"
proof (induction d rs rule: patch_requests.induct)
  case (1 d)
  show ?case by (simp add: list_all2_same)
next
  case (2 d now uid tid b rs)
  have "list_all2 (\<lambda>t t'. closedAt t = None \<or> closedAt t' = closedAt t)
          (tickets (store (patch_api_tickets_id d now uid tid b)))
          (tickets (patch_requests (store (patch_api_tickets_id d now uid tid b)) rs))"
    using 2 by (simp add: patch_keeps_ids_distinct)
  then show ?case
    using kept_trans [OF closedAt_kept [OF "2.prems", of now uid tid b]] by simp
qed

text \<open>
  C7. Closing is idempotent. Take the ticket in row \<open>i\<close> of the table, closed by a PATCH
  request that set status closed and was answered 200 (the store is then \<open>d1\<close>), and,
  after any further PATCH requests \<open>rs\<close> (the store is then \<open>d2\<close>), in status closed. Its
  \<open>closedAt\<close> was set by the closing and has not changed since; and another PATCH request
  on this ticket, whatever its body and so also one that sets status closed again,
  leaves \<open>closedAt\<close> as it is and sends no closure mail.
\<close>

theorem closing_again:
  assumes "distinct (map t_id (tickets d))"
    and "i < length (tickets d)"
    and "t_id (tickets d ! i) = tid"
    and "b ''status'' = Some (JStr ''closed'')"
    and "response (patch_api_tickets_id d now uid tid b) = Status200 r"
    and "d1 = store (patch_api_tickets_id d now uid tid b)"
    and "d2 = patch_requests d1 rs"
    and "status (tickets d2 ! i) = Some Closed"
  shows "closedAt (tickets d1 ! i) \<noteq> None
       \<and> closedAt (tickets d2 ! i) = closedAt (tickets d1 ! i)
       \<and> closedAt (tickets (store (patch_api_tickets_id d2 now' uid' (t_id (tickets d2 ! i)) b')) ! i)
           = closedAt (tickets d2 ! i)
       \<and> filter (\<lambda>m. kind m = TicketClosed)
           (sent (patch_api_tickets_id d2 now' uid' (t_id (tickets d2 ! i)) b')) = []"
proof -
  let ?out = "patch_api_tickets_id d2 now' uid' (t_id (tickets d2 ! i)) b'"
  have dist1: "distinct (map t_id (tickets d1))"
    unfolding assms(6) by (rule patch_keeps_ids_distinct [OF assms(1)])
  have dist2: "distinct (map t_id (tickets d2))"
    unfolding assms(7) by (rule patch_requests_ids_distinct [OF dist1])
  have k1: "list_all2 (\<lambda>t t'. closedAt t = None \<or> closedAt t' = closedAt t)
      (tickets d) (tickets d1)"
    unfolding assms(6) by (rule closedAt_kept [OF assms(1)])
  have k2: "list_all2 (\<lambda>t t'. closedAt t = None \<or> closedAt t' = closedAt t)
      (tickets d1) (tickets d2)"
    unfolding assms(7) by (rule closedAt_kept_requests [OF dist1])
  have k3: "list_all2 (\<lambda>t t'. closedAt t = None \<or> closedAt t' = closedAt t)
      (tickets d2) (tickets (store ?out))"
    by (rule closedAt_kept [OF dist2])
  have len1: "i < length (tickets d1)"
    using list_all2_lengthD [OF k1] assms(2) by simp
  have len2: "i < length (tickets d2)"
    using list_all2_lengthD [OF k2] len1 by simp
  have set1: "closedAt (tickets d1 ! i) \<noteq> None"
    using closing_stamps [OF assms(1,2,3,4,5)] unfolding assms(6) [symmetric]
    by (simp split: option.splits)
  have eq2: "closedAt (tickets d2 ! i) = closedAt (tickets d1 ! i)"
    using list_all2_nthD [OF k2 len1] set1 by simp
  have eq3: "closedAt (tickets (store ?out) ! i) = closedAt (tickets d2 ! i)"
    using list_all2_nthD [OF k3 len2] set1 eq2 by simp
  have "find (\<lambda>t. t_id t = t_id (tickets d2 ! i)) (tickets d2) = Some (tickets d2 ! i)"
    by (rule find_nth_distinct [OF dist2 len2])
  then have mail: "filter (\<lambda>m. kind m = TicketClosed) (sent ?out) = []"
    using assms(8) by (rule patch_sent_closed)
  show ?thesis using set1 eq2 eq3 mail by simp
qed

text \<open>
  The theorem of C7 at the open ticket that the admin closes at 200, then reopens and
  closes once more, and closes again at 500: \<open>closedAt\<close> stays at 200.
\<close>

theorem closing_again_witness:
  "distinct (map t_id (tickets db_one_open))
   \<and> (0::nat) < length (tickets db_one_open)
   \<and> t_id (tickets db_one_open ! 0) = 1
   \<and> [''status'' \<mapsto> JStr ''closed''] ''status'' = Some (JStr ''closed'')
   \<and> response (patch_api_tickets_id db_one_open 200 ''carol'' 1 [''status'' \<mapsto> JStr ''closed''])
       = Status200 (Some ticket1_closed)
   \<and> status (tickets (patch_requests db_closed reopen_and_close) ! 0) = Some Closed
   \<and> closedAt (tickets db_closed ! 0) = Some 200
   \<and> closedAt (tickets (patch_requests db_closed reopen_and_close) ! 0) = closedAt (tickets db_closed ! 0)
   \<and> closedAt (tickets (store (patch_api_tickets_id (patch_requests db_closed reopen_and_close)
          500 ''carol'' (t_id (tickets (patch_requests db_closed reopen_and_close) ! 0))
          [''status'' \<mapsto> JStr ''closed''])) ! 0)
       = closedAt (tickets (patch_requests db_closed reopen_and_close) ! 0)
   \<and> filter (\<lambda>m. kind m = TicketClosed)
        (sent (patch_api_tickets_id (patch_requests db_closed reopen_and_close)
           500 ''carol'' (t_id (tickets (patch_requests db_closed reopen_and_close) ! 0))
           [''status'' \<mapsto> JStr ''closed''])) = []"
proof -
  have h1: "distinct (map t_id (tickets db_one_open))"
    by (simp add: db_one_open_def)
  have h2: "(0::nat) < length (tickets db_one_open)"
    by (simp add: db_one_open_def)
  have h3: "t_id (tickets db_one_open ! 0) = 1"
    by (simp add: db_one_open_def ticket1_def)
  have h4: "[''status'' \<mapsto> JStr ''closed''] ''status'' = Some (JStr ''closed'')"
    by simp
  have h5: "response (patch_api_tickets_id db_one_open 200 ''carol'' 1 [''status'' \<mapsto> JStr ''closed''])
      = Status200 (Some ticket1_closed)"
    by code_simp
  have h6: "db_closed = store (patch_api_tickets_id db_one_open 200 ''carol'' 1 [''status'' \<mapsto> JStr ''closed''])"
    by code_simp
  have h7: "patch_requests db_closed reopen_and_close = patch_requests db_closed reopen_and_close"
    by simp
  have h8: "status (tickets (patch_requests db_closed reopen_and_close) ! 0) = Some Closed"
    by code_simp
  have at: "closedAt (tickets db_closed ! 0) = Some 200"
    by (simp add: db_closed_def ticket1_closed_def)
  show ?thesis
    using h1 h2 h3 h4 h5 h8 at
      closing_again [OF h1 h2 h3 h4 h5 h6 h7 h8, of 500 "''carol''" "[''status'' \<mapsto> JStr ''closed'']"]
    by simp
qed

section \<open>Ticket numbers\<close>

text \<open>
  C4. The claim: a new ticket's number differs from every number assigned before, also
  those of deleted tickets. The number is the current row count plus one: after the only
  ticket is deleted the next one is TKT-0001 again, and after the first of two tickets is
  deleted the next creation computes TKT-0002, which exists, and fails.
\<close>

theorem ticketNumber_reused:
  "map ticketNumber (tickets db_created) = [''TKT-0001'']
   \<and> tickets db_deleted = []
   \<and> map ticketNumber (tickets (store (post_api_tickets db_deleted 300 ''bob'' new_ticket_body)))
       = [''TKT-0001'']
   \<and> map ticketNumber (tickets db_second_left) = [''TKT-0002'']
   \<and> response (post_api_tickets db_second_left 300 ''bob'' new_ticket_body) = Status500"
  by code_simp

section \<open>Comments\<close>

text \<open>
  C5. The claim: a comment with empty content is rejected with a validation error and not
  stored. The schema checks only that \<open>content\<close> is a string: the empty comment is stored
  and the answer is 201.
\<close>

theorem empty_comment_stored:
  "response (post_api_tickets_id_comments db_one_open 200 ''alice'' 1 [''content'' \<mapsto> JStr ''''])
     = Status201 \<lparr> c_id = 1, ticketId = 1, userId = ''alice'', content = '''',
                    isInternal = Some False, c_createdAt = Some 200 \<rparr>
   \<and> map content (comments (store (post_api_tickets_id_comments db_one_open 200 ''alice'' 1
                                     [''content'' \<mapsto> JStr '''']))) = ['''']"
  by code_simp

end
